theory Spec2Isabelle
  imports Main "HOL-Library.AList"
begin

section \<open>HTTP requests and response writers\<close>

text \<open>
  Both servers of the agent are handlers of Go's \<^verbatim>\<open>net/http\<close>. A handler reads a
  request and writes to a response writer. Of the request the handlers below read the
  path, the announced content length and the body; the method and the header fields are
  carried along so that a statement can quantify over them.

  \<^verbatim>\<open>ContentLength\<close> is the length the request announces: \<open>0\<close> when it announces no body,
  \<open>-1\<close> when the length is not known in advance (chunked transfer), otherwise the
  number of bytes announced.
\<close>

record Request =
  Method :: string
  Path :: string
  Header :: "(string \<times> string) list"
  ContentLength :: int
  Body :: string

text \<open>
  The server hands a handler a request whose body agrees with the announced length: no
  body at all under length \<open>0\<close>, at most the announced number of bytes under a positive
  length, any body under the unknown length \<open>-1\<close>.
\<close>

definition wf_request :: "'a Request_scheme \<Rightarrow> bool" where
  "wf_request r \<longleftrightarrow>
     - 1 \<le> ContentLength r \<and>
     (ContentLength r = 0 \<longrightarrow> Body r = []) \<and>
     (0 < ContentLength r \<longrightarrow> int (length (Body r)) \<le> ContentLength r)"

record ResponseWriter =
  wroteHeader :: bool
  Status :: nat
  RespBody :: string

definition new_ResponseWriter :: ResponseWriter where
  "new_ResponseWriter = \<lparr>wroteHeader = False, Status = 0, RespBody = []\<rparr>"

text \<open>\<^verbatim>\<open>w.WriteHeader(code)\<close>: the first call fixes the status, a later one is ignored.\<close>

definition WriteHeader :: "nat \<Rightarrow> ResponseWriter \<Rightarrow> ResponseWriter" where
  "WriteHeader code w = (if wroteHeader w then w else w\<lparr>wroteHeader := True, Status := code\<rparr>)"

text \<open>\<^verbatim>\<open>w.Write(bytes)\<close>: a write before any \<^verbatim>\<open>WriteHeader\<close> sends status 200 first.\<close>

definition Write :: "string \<Rightarrow> ResponseWriter \<Rightarrow> ResponseWriter" where
  "Write bs w = (let w' = WriteHeader 200 w in w'\<lparr>RespBody := RespBody w' @ bs\<rparr>)"

text \<open>\<^verbatim>\<open>http.Error(w, msg, code)\<close>: the status, then the message and a newline.\<close>

definition http_Error :: "ResponseWriter \<Rightarrow> string \<Rightarrow> nat \<Rightarrow> ResponseWriter" where
  "http_Error w msg code = Write (msg @ [CHR 0x0A]) (WriteHeader code w)"

definition StatusBadRequest :: nat where
  "StatusBadRequest = 400"

text \<open>A handler that panics writes no response; the panic is the handler's result.\<close>

datatype panic = NilPointerDereference | TypeAssertionFailed

type_synonym error = string

section \<open>The push endpoint\<close>

text \<open>
  Modelled from the spec: the declaration of \<^verbatim>\<open>model.MetricValue\<close> is not part of the
  sources. The handler reads and writes the field \<^verbatim>\<open>Endpoint\<close> only; the other fields
  are those the spec lists for a pushed metric point (metric name, value, timestamp,
  tags). The type of the value is left open, and the theorems hold for every extension
  of the record.
\<close>

record 'v MetricValue =
  Endpoint :: string
  Metric :: string
  Value :: 'v
  Timestamp :: int
  Tags :: string

text \<open>\<^verbatim>\<open>g.Config()\<close> is read for its \<^verbatim>\<open>Hostname\<close> only.\<close>

record GlobalConfig =
  Hostname :: string

text \<open>
  The loop over the decoded batch
  \<^verbatim>\<open>for _, v := range metrics { if v.Endpoint == "" { v.Endpoint = g.Config().Hostname } }\<close>.
  The batch is a slice of pointers, so an element may be nil (\<open>None\<close>), and reading
  \<^verbatim>\<open>v.Endpoint\<close> through a nil pointer panics.
\<close>

definition fill_endpoint :: "string \<Rightarrow> ('v, 'z) MetricValue_scheme \<Rightarrow> ('v, 'z) MetricValue_scheme" where
  "fill_endpoint h v = (if Endpoint v = [] then v\<lparr>Endpoint := h\<rparr> else v)"

fun fill_endpoints ::
  "string \<Rightarrow> ('v, 'z) MetricValue_scheme option list \<Rightarrow> panic + ('v, 'z) MetricValue_scheme option list" where
  "fill_endpoints h [] = Inr []"
| "fill_endpoints h (None # vs) = Inl NilPointerDereference"
| "fill_endpoints h (Some v # vs) =
     (case fill_endpoints h vs of
        Inl p \<Rightarrow> Inl p
      | Inr vs' \<Rightarrow> Inr (Some (fill_endpoint h v) # vs'))"

text \<open>
  The handler that \<^verbatim>\<open>configPushRoutes\<close> registers for \<^verbatim>\<open>/v1/push\<close>. Two calls leave the
  sources and are parameters:
  \<^item> \<open>Decode\<close> is \<^verbatim>\<open>json.NewDecoder(req.Body).Decode(&metrics)\<close>, from the body to an
    error or the decoded batch;
  \<^item> \<open>SendToTransfer\<close> is \<^verbatim>\<open>g.SendToTransfer\<close>. It returns nothing to the handler, so it
    is an effect on the state \<open>s\<close> of the downstream sink, whatever that state records
    (a delivered batch, a failure).
  The result is the panic, or the response writer and the sink after the handler.
\<close>

definition push_handler ::
  "(string \<Rightarrow> error + ('v, 'z) MetricValue_scheme option list) \<Rightarrow>
   (('v, 'z) MetricValue_scheme option list \<Rightarrow> 's \<Rightarrow> 's) \<Rightarrow>
   GlobalConfig \<Rightarrow> 'a Request_scheme \<Rightarrow> ResponseWriter \<times> 's \<Rightarrow> panic + ResponseWriter \<times> 's" where
  "push_handler Decode SendToTransfer cfg req ws =
     (case ws of (w, s) \<Rightarrow>
        if ContentLength req = 0 then Inr (http_Error w ''body is blank'' StatusBadRequest, s)
        else
          (case Decode (Body req) of
             Inl err \<Rightarrow> Inr (http_Error w ''connot decode body'' StatusBadRequest, s)
           | Inr metrics \<Rightarrow>
               (case fill_endpoints (Hostname cfg) metrics of
                  Inl p \<Rightarrow> Inl p
                | Inr metrics' \<Rightarrow> Inr (Write ''success'' w, SendToTransfer metrics' s))))"

section \<open>The metrics server\<close>

definition metricsPath :: string where
  "metricsPath = ''/metrics''"

definition healthzPath :: string where
  "healthzPath = ''/healthz''"

text \<open>The handler of the health path: \<^verbatim>\<open>w.WriteHeader(200); w.Write([]byte("ok"))\<close>.\<close>

definition healthz_handler :: "ResponseWriter \<Rightarrow> 'a Request_scheme \<Rightarrow> ResponseWriter" where
  "healthz_handler w r = Write ''ok'' (WriteHeader 200 w)"

text \<open>The index page, a raw string literal around the two paths.\<close>

definition index_page :: string where
  "index_page =
     ''<html>'' @ [CHR 0x0A] @
     replicate 13 (CHR '' '') @ ''<head><title>Kube Metrics Server</title></head>'' @ [CHR 0x0A] @
     replicate 13 (CHR '' '') @ ''<body>'' @ [CHR 0x0A] @
     replicate 13 (CHR '' '') @ ''<h1>Kube Metrics</h1>'' @ [CHR 0x0A] @
     replicate 3 (CHR 0x09) @ '' <ul>'' @ [CHR 0x0A] @
     replicate 13 (CHR '' '') @ ''<li><a href='' @ [CHR 0x27] @ metricsPath @ [CHR 0x27] @
       ''>metrics</a></li>'' @ [CHR 0x0A] @
     replicate 13 (CHR '' '') @ ''<li><a href='' @ [CHR 0x27] @ healthzPath @ [CHR 0x27] @
       ''>healthz</a></li>'' @ [CHR 0x0A] @
     replicate 3 (CHR 0x09) @ '' </ul>'' @ [CHR 0x0A] @
     replicate 13 (CHR '' '') @ ''</body>'' @ [CHR 0x0A] @
     replicate 13 (CHR '' '') @ ''</html>''"

definition index_handler :: "ResponseWriter \<Rightarrow> 'a Request_scheme \<Rightarrow> ResponseWriter" where
  "index_handler w r = Write index_page w"

text \<open>
  The routes are registered with the default mux of \<^verbatim>\<open>net/http\<close>. Before it looks for a
  route, the mux answers a request whose path is not in canonical form with a redirect
  to the canonical path, unless the method is \<^verbatim>\<open>CONNECT\<close>. A path is canonical when it
  starts with a slash and has no empty segment before its last one and no segment \<^verbatim>\<open>.\<close>
  or \<^verbatim>\<open>..\<close>.
\<close>

fun split_on :: "char \<Rightarrow> string \<Rightarrow> string list" where
  "split_on c [] = [[]]"
| "split_on c (x # xs) =
     (if x = c then [] # split_on c xs
      else (case split_on c xs of [] \<Rightarrow> [[x]] | seg # segs \<Rightarrow> (x # seg) # segs))"

definition canonical :: "string \<Rightarrow> bool" where
  "canonical path =
     (case split_on (CHR ''/'') path of
        [] \<Rightarrow> False
      | first # segs \<Rightarrow>
          first = [] \<and> segs \<noteq> [] \<and>
          list_all (\<lambda>seg. seg \<noteq> [] \<and> seg \<noteq> ''.'' \<and> seg \<noteq> ''..'') (butlast segs) \<and>
          last segs \<noteq> ''.'' \<and> last segs \<noteq> ''..'')"

text \<open>
  The routes of \<^verbatim>\<open>metricsServer\<close>: the metrics path and the health path match their own
  path only, the pattern \<^verbatim>\<open>/\<close> takes every other path. Two handlers are the library's
  and are parameters: the handler of the metrics path,
  \<^verbatim>\<open>prometheus.UninstrumentedHandler()\<close>, the one handler that reads the caches, and the
  redirect with which the mux answers a path that is not canonical.
\<close>

definition metricsServer ::
  "(ResponseWriter \<Rightarrow> 'a Request_scheme \<Rightarrow> ResponseWriter) \<Rightarrow>
   (ResponseWriter \<Rightarrow> 'a Request_scheme \<Rightarrow> ResponseWriter) \<Rightarrow>
   ResponseWriter \<Rightarrow> 'a Request_scheme \<Rightarrow> ResponseWriter" where
  "metricsServer UninstrumentedHandler RedirectHandler w r =
     (if Method r \<noteq> ''CONNECT'' \<and> \<not> canonical (Path r) then RedirectHandler w r
      else if Path r = metricsPath then UninstrumentedHandler w r
      else if Path r = healthzPath then healthz_handler w r
      else index_handler w r)"

section \<open>The watch cache\<close>

text \<open>
  Modelled from the spec: the store behind \<^verbatim>\<open>cache.NewSharedInformer\<close> is not part of the
  sources. The spec describes it as a keyed store, the key taken from the object (kind,
  namespace and name), filled by an initial full list, changed by add, update and delete
  events in the order of their arrival, and replaced as a whole by a relist. The store is
  the list of its entries, each under its key; \<open>keyf\<close> takes the key from an object.
\<close>

datatype 'o event = Add 'o | Update 'o | Delete 'o | Relist "'o list"

definition Replace :: "('o \<Rightarrow> 'k) \<Rightarrow> 'o list \<Rightarrow> ('k \<times> 'o) list" where
  "Replace keyf xs = fold (\<lambda>x st. AList.update (keyf x) x st) xs []"

fun apply_event :: "('o \<Rightarrow> 'k) \<Rightarrow> 'o event \<Rightarrow> ('k \<times> 'o) list \<Rightarrow> ('k \<times> 'o) list" where
  "apply_event keyf (Add x) st = AList.update (keyf x) x st"
| "apply_event keyf (Update x) st = AList.update (keyf x) x st"
| "apply_event keyf (Delete x) st = AList.delete (keyf x) st"
| "apply_event keyf (Relist xs) st = Replace keyf xs"

text \<open>The store after a stream of events, from the empty store of a new cache.\<close>

definition apply_events :: "('o \<Rightarrow> 'k) \<Rightarrow> 'o event list \<Rightarrow> ('k \<times> 'o) list" where
  "apply_events keyf evs = fold (apply_event keyf) evs []"

text \<open>\<^verbatim>\<open>List()\<close> of the store: its objects, without their keys.\<close>

definition Store_List :: "('k \<times> 'o) list \<Rightarrow> 'o list" where
  "Store_List st = map snd st"

record ('k, 'o) SharedInformer =
  indexer :: "('k \<times> 'o) list"

definition GetStore :: "('k, 'o) SharedInformer \<Rightarrow> ('k \<times> 'o) list" where
  "GetStore informer = indexer informer"

section \<open>The typed listers\<close>

text \<open>
  The four struct types come from the cluster API; their declarations are not part of
  the sources. A struct of these types has fields of value types (strings, numbers,
  nested structs) and fields of reference types (maps such as the labels, slices such as
  the containers, pointers). It is modelled by the two parts: \<open>Values\<close>, the value-typed
  fields, a type parameter of each kind, and \<open>Refs\<close>, the addresses that the
  reference-typed fields hold, in the order of the fields. What lies at an address (the
  contents of a map, the elements of a slice) is a cell of the heap.
\<close>

type_synonym addr = nat

record 'f Struct =
  Values :: 'f
  Refs :: "addr list"

type_synonym 'c heap = "addr \<Rightarrow> 'c option"

text \<open>
  What a holder of a struct sees through it: the value-typed fields, and through each
  reference the cell it points to.
\<close>

definition deep :: "'c heap \<Rightarrow> 'f Struct \<Rightarrow> 'f \<times> 'c option list" where
  "deep h s = (Values s, map h (Refs s))"

text \<open>
  A write through the \<open>j\<close>-th reference of a struct, as \<^verbatim>\<open>pod.Labels["app"] = v\<close> is for
  the field of the labels: the struct stays as it is, the cell changes.
\<close>

definition write_through :: "'f Struct \<Rightarrow> nat \<Rightarrow> 'c \<Rightarrow> 'c heap \<Rightarrow> 'c heap" where
  "write_through s j v h = (if j < length (Refs s) then h(Refs s ! j \<mapsto> v) else h)"

text \<open>
  A copy of a struct by assignment or by \<^verbatim>\<open>*ptr\<close> is shallow: a struct of its own with
  the same value-typed fields and the same addresses in its reference-typed fields. No
  cell is copied.
\<close>

definition shallow_copy :: "'f Struct \<Rightarrow> 'f Struct \<Rightarrow> bool" where
  "shallow_copy r e \<longleftrightarrow> Values r = Values e \<and> Refs r = Refs e"

text \<open>
  The store holds values of the empty interface. A lister asserts that an entry is a
  pointer to its own kind and copies the struct the pointer refers to. An entry is
  modelled by its dynamic type and the struct pointed to when the store is listed,
  \<open>None\<close> for a nil pointer.
\<close>

datatype ('d, 'p, 'n, 'r) object =
  DeploymentPtr "'d Struct option"
| PodPtr "'p Struct option"
| NodePtr "'n Struct option"
| ReplicationControllerPtr "'r Struct option"

record 'n NodeList =
  Items :: "'n Struct list"

text \<open>
  The loops of the four listers, over the entries that \<^verbatim>\<open>GetStore().List()\<close> returned,
  with the slice built so far. A failed type assertion and a nil pointer panic. The
  struct appended is the copy \<^verbatim>\<open>*ptr\<close>: the value-typed fields and the addresses of the
  struct pointed to. The loops neither read nor write the heap of cells, so it is not
  among their arguments.
\<close>

fun deployments_loop :: "('d, 'p, 'n, 'r) object list \<Rightarrow> 'd Struct list \<Rightarrow> panic + 'd Struct list" where
  "deployments_loop [] deployments = Inr deployments"
| "deployments_loop (DeploymentPtr (Some d) # cs) deployments = deployments_loop cs (deployments @ [d])"
| "deployments_loop (DeploymentPtr None # cs) deployments = Inl NilPointerDereference"
| "deployments_loop (c # cs) deployments = Inl TypeAssertionFailed"

fun pods_loop :: "('d, 'p, 'n, 'r) object list \<Rightarrow> 'p Struct list \<Rightarrow> panic + 'p Struct list" where
  "pods_loop [] pods = Inr pods"
| "pods_loop (PodPtr (Some m) # ms) pods = pods_loop ms (pods @ [m])"
| "pods_loop (PodPtr None # ms) pods = Inl NilPointerDereference"
| "pods_loop (m # ms) pods = Inl TypeAssertionFailed"

fun machines_loop :: "('d, 'p, 'n, 'r) object list \<Rightarrow> 'n NodeList \<Rightarrow> panic + 'n NodeList" where
  "machines_loop [] machines = Inr machines"
| "machines_loop (NodePtr (Some m) # ms) machines = machines_loop ms (machines\<lparr>Items := Items machines @ [m]\<rparr>)"
| "machines_loop (NodePtr None # ms) machines = Inl NilPointerDereference"
| "machines_loop (m # ms) machines = Inl TypeAssertionFailed"

fun rcs_loop :: "('d, 'p, 'n, 'r) object list \<Rightarrow> 'r Struct list \<Rightarrow> panic + 'r Struct list" where
  "rcs_loop [] rcs = Inr rcs"
| "rcs_loop (ReplicationControllerPtr (Some m) # ms) rcs = rcs_loop ms (rcs @ [m])"
| "rcs_loop (ReplicationControllerPtr None # ms) rcs = Inl NilPointerDereference"
| "rcs_loop (m # ms) rcs = Inl TypeAssertionFailed"

text \<open>
  The four closures of \<^verbatim>\<open>InitializeMetricCollection\<close>, each over its informer. The named
  results start as the zero value (a nil slice, an empty node list) and the error that
  is returned is the literal \<^verbatim>\<open>nil\<close>.
\<close>

definition dplLister ::
  "('k, ('d, 'p, 'n, 'r) object) SharedInformer \<Rightarrow> unit \<Rightarrow> panic + 'd Struct list \<times> error option" where
  "dplLister dinf = (\<lambda>_.
     case deployments_loop (Store_List (GetStore dinf)) [] of
       Inl p \<Rightarrow> Inl p
     | Inr deployments \<Rightarrow> Inr (deployments, None))"

definition podLister ::
  "('k, ('d, 'p, 'n, 'r) object) SharedInformer \<Rightarrow> unit \<Rightarrow> panic + 'p Struct list \<times> error option" where
  "podLister pinf = (\<lambda>_.
     case pods_loop (Store_List (GetStore pinf)) [] of
       Inl p \<Rightarrow> Inl p
     | Inr pods \<Rightarrow> Inr (pods, None))"

definition nodeLister ::
  "('k, ('d, 'p, 'n, 'r) object) SharedInformer \<Rightarrow> unit \<Rightarrow> panic + 'n NodeList \<times> error option" where
  "nodeLister ninf = (\<lambda>_.
     case machines_loop (Store_List (GetStore ninf)) \<lparr>Items = []\<rparr> of
       Inl p \<Rightarrow> Inl p
     | Inr machines \<Rightarrow> Inr (machines, None))"

definition rcLister ::
  "('k, ('d, 'p, 'n, 'r) object) SharedInformer \<Rightarrow> unit \<Rightarrow> panic + 'r Struct list \<times> error option" where
  "rcLister rinf = (\<lambda>_.
     case rcs_loop (Store_List (GetStore rinf)) [] of
       Inl p \<Rightarrow> Inl p
     | Inr rcs \<Rightarrow> Inr (rcs, None))"

text \<open>The method \<^verbatim>\<open>List\<close> of the four lister types calls the function it is.\<close>

definition DeploymentLister_List :: "(unit \<Rightarrow> panic + 'd list \<times> error option) \<Rightarrow> panic + 'd list \<times> error option" where
  "DeploymentLister_List l = l ()"

definition PodLister_List :: "(unit \<Rightarrow> panic + 'p list \<times> error option) \<Rightarrow> panic + 'p list \<times> error option" where
  "PodLister_List l = l ()"

definition NodeLister_List :: "(unit \<Rightarrow> panic + 'n NodeList \<times> error option) \<Rightarrow> panic + 'n NodeList \<times> error option" where
  "NodeLister_List l = l ()"

definition RCLister_List :: "(unit \<Rightarrow> panic + 'r list \<times> error option) \<Rightarrow> panic + 'r list \<times> error option" where
  "RCLister_List l = l ()"

text \<open>
  Modelled from the spec: the collectors that \<^verbatim>\<open>InitializeMetricCollection\<close> registers
  (\<^verbatim>\<open>deploymentCollector\<close>, \<^verbatim>\<open>podCollector\<close>, \<^verbatim>\<open>nodeCollector\<close>,
  \<^verbatim>\<open>replicationcontrollerCollector\<close>) are not part of the sources. By the spec, collect
  calls its lister and emits, for every object returned, the samples of a fixed mapping
  of the kind; if the lister fails it emits no samples. \<open>samples_of\<close> is that mapping,
  \<open>listing\<close> the result of the lister's \<^verbatim>\<open>List\<close>.
\<close>

definition Collect :: "('o \<Rightarrow> 'm list) \<Rightarrow> panic + 'o list \<times> error option \<Rightarrow> panic + 'm list" where
  "Collect samples_of listing =
     (case listing of
        Inl p \<Rightarrow> Inl p
      | Inr (objs, Some err) \<Rightarrow> Inr []
      | Inr (objs, None) \<Rightarrow> Inr (concat (map samples_of objs)))"

definition Collect_nodes :: "('n Struct \<Rightarrow> 'm list) \<Rightarrow> panic + 'n NodeList \<times> error option \<Rightarrow> panic + 'm list" where
  "Collect_nodes samples_of listing =
     (case listing of
        Inl p \<Rightarrow> Inl p
      | Inr (machines, Some err) \<Rightarrow> Inr []
      | Inr (machines, None) \<Rightarrow> Inr (concat (map samples_of (Items machines))))"

section \<open>Sample inputs\<close>

text \<open>
  The closed instances below run the push handler on a few request bodies. The decoder
  is the library's; \<open>json_table\<close> lists its result on these bodies and on no other: the
  empty input is an error (end of input), an array that breaks off is an error, \<^verbatim>\<open>[]\<close>
  and \<^verbatim>\<open>null\<close> are the empty batch, a \<^verbatim>\<open>null\<close> element is a nil pointer, a field that is
  absent keeps its zero value. The value of a point is kept as its text.
\<close>

definition cpu_load_body :: string where
  "cpu_load_body =
     ''[{'' @ [CHR 0x22] @ ''metric'' @ [CHR 0x22] @ '':'' @ [CHR 0x22] @ ''cpu.load'' @ [CHR 0x22] @
     '','' @ [CHR 0x22] @ ''value'' @ [CHR 0x22] @ '':1.2}]''"

definition two_points_body :: string where
  "two_points_body =
     ''[{'' @ [CHR 0x22] @ ''metric'' @ [CHR 0x22] @ '':'' @ [CHR 0x22] @ ''cpu.load'' @ [CHR 0x22] @
     '','' @ [CHR 0x22] @ ''value'' @ [CHR 0x22] @ '':1.2},{'' @
     [CHR 0x22] @ ''endpoint'' @ [CHR 0x22] @ '':'' @ [CHR 0x22] @ ''web01'' @ [CHR 0x22] @
     '','' @ [CHR 0x22] @ ''metric'' @ [CHR 0x22] @ '':'' @ [CHR 0x22] @ ''mem.free'' @ [CHR 0x22] @
     '','' @ [CHR 0x22] @ ''value'' @ [CHR 0x22] @ '':512}]''"

definition json_table :: "(string \<times> (error + string MetricValue option list)) list" where
  "json_table =
     [([], Inl ''EOF''),
      (''[{'', Inl ''unexpected EOF''),
      (''[]'', Inr []),
      (''null'', Inr []),
      (''[null]'', Inr [None]),
      (cpu_load_body,
        Inr [Some \<lparr>Endpoint = [], Metric = ''cpu.load'', Value = ''1.2'', Timestamp = 0, Tags = []\<rparr>]),
      (two_points_body,
        Inr [Some \<lparr>Endpoint = [], Metric = ''cpu.load'', Value = ''1.2'', Timestamp = 0, Tags = []\<rparr>,
             Some \<lparr>Endpoint = ''web01'', Metric = ''mem.free'', Value = ''512'', Timestamp = 0, Tags = []\<rparr>])]"

text \<open>
  The table as a decoder. A body that the table does not list gets the mark
  \<^verbatim>\<open>not in the table\<close>, which says nothing about the library's decoder; no statement
  below runs the fixture on such a body.
\<close>

definition json_fixture :: "string \<Rightarrow> error + string MetricValue option list" where
  "json_fixture body =
     (case map_of json_table body of
        Some result \<Rightarrow> result
      | None \<Rightarrow> Inl ''not in the table'')"

text \<open>A request to the push path with the announced length \<open>n\<close> and the given body.\<close>

definition post_push :: "int \<Rightarrow> string \<Rightarrow> Request" where
  "post_push n body =
     \<lparr>Method = ''POST'', Path = ''/v1/push'', Header = [], ContentLength = n, Body = body\<rparr>"

section \<open>Well-formed stores\<close>

text \<open>
  What every store reached by events satisfies: no key occurs twice, and every entry
  lies under the key of its object.
\<close>

definition store_inv :: "('o \<Rightarrow> 'k) \<Rightarrow> ('k \<times> 'o) list \<Rightarrow> bool" where
  "store_inv keyf st \<longleftrightarrow> distinct (map fst st) \<and> (\<forall>e\<in>set st. fst e = keyf (snd e))"

text \<open>
  The entries a lister expects in the store of its informer: non-nil pointers to its own
  kind.
\<close>

fun is_deployment :: "('d, 'p, 'n, 'r) object \<Rightarrow> bool" where
  "is_deployment (DeploymentPtr (Some d)) = True"
| "is_deployment c = False"

fun is_pod :: "('d, 'p, 'n, 'r) object \<Rightarrow> bool" where
  "is_pod (PodPtr (Some m)) = True"
| "is_pod c = False"

fun is_node :: "('d, 'p, 'n, 'r) object \<Rightarrow> bool" where
  "is_node (NodePtr (Some m)) = True"
| "is_node c = False"

fun is_rc :: "('d, 'p, 'n, 'r) object \<Rightarrow> bool" where
  "is_rc (ReplicationControllerPtr (Some m)) = True"
| "is_rc c = False"

text \<open>
  Sample objects for the caches. The value-typed fields of a pod are the fields of its
  key and a phase, and a pod has one reference-typed field, the map of its labels; the
  other three kinds are given by their names and have no reference-typed field here.
  \<open>object_key\<close> is the key of the store: kind, namespace and name (a node has no
  namespace). \<open>pod_cells\<close> is a heap with the labels of the two pods.
\<close>

record sample_pod =
  Namespace :: string
  Name :: string
  Phase :: string

definition pod_key :: "sample_pod Struct \<Rightarrow> string \<times> string \<times> string" where
  "pod_key p = (''Pod'', Namespace (Values p), Name (Values p))"

definition web_pod :: "sample_pod Struct" where
  "web_pod =
     \<lparr>Values = \<lparr>Namespace = ''default'', Name = ''web'', Phase = ''Running''\<rparr>, Refs = [0]\<rparr>"

definition db_pod :: "sample_pod Struct" where
  "db_pod =
     \<lparr>Values = \<lparr>Namespace = ''default'', Name = ''db'', Phase = ''Pending''\<rparr>, Refs = [1]\<rparr>"

definition web_pod_succeeded :: "sample_pod Struct" where
  "web_pod_succeeded =
     \<lparr>Values = \<lparr>Namespace = ''default'', Name = ''web'', Phase = ''Succeeded''\<rparr>, Refs = [0]\<rparr>"

definition pod_cells :: "string heap" where
  "pod_cells = [0 \<mapsto> ''app=web'', 1 \<mapsto> ''app=db'']"

definition named :: "string \<Rightarrow> string Struct" where
  "named n = \<lparr>Values = n, Refs = []\<rparr>"

type_synonym sample_object = "(string, sample_pod, string, string) object"

definition object_key :: "sample_object \<Rightarrow> string \<times> string \<times> string" where
  "object_key c =
     (case c of
        DeploymentPtr d \<Rightarrow> (''Deployment'', ''default'', case d of None \<Rightarrow> [] | Some m \<Rightarrow> Values m)
      | PodPtr p \<Rightarrow> (case p of None \<Rightarrow> (''Pod'', [], []) | Some m \<Rightarrow> pod_key m)
      | NodePtr n \<Rightarrow> (''Node'', [], case n of None \<Rightarrow> [] | Some m \<Rightarrow> Values m)
      | ReplicationControllerPtr r \<Rightarrow>
          (''ReplicationController'', ''default'', case r of None \<Rightarrow> [] | Some m \<Rightarrow> Values m))"

text \<open>Sample informers, each with the store its events leave.\<close>

definition pod_events :: "sample_object event list" where
  "pod_events = [Relist [PodPtr (Some web_pod), PodPtr (Some db_pod)]]"

definition pod_informer :: "(string \<times> string \<times> string, sample_object) SharedInformer" where
  "pod_informer = \<lparr>indexer = apply_events object_key pod_events\<rparr>"

definition deployment_informer :: "(string \<times> string \<times> string, sample_object) SharedInformer" where
  "deployment_informer =
     \<lparr>indexer = apply_events object_key [Add (DeploymentPtr (Some (named ''api''))), Add (DeploymentPtr (Some (named ''worker'')))]\<rparr>"

definition node_informer :: "(string \<times> string \<times> string, sample_object) SharedInformer" where
  "node_informer = \<lparr>indexer = apply_events object_key [Relist [NodePtr (Some (named ''node-1''))]]\<rparr>"

definition rc_informer :: "(string \<times> string \<times> string, sample_object) SharedInformer" where
  "rc_informer =
     \<lparr>indexer = apply_events object_key
        [Add (ReplicationControllerPtr (Some (named ''cache''))), Add (ReplicationControllerPtr (Some (named ''queue''))),
         Delete (ReplicationControllerPtr (Some (named ''cache'')))]\<rparr>"

section \<open>Properties of the push endpoint\<close>

lemma fill_endpoints_points:
  "None \<notin> set ms \<Longrightarrow> fill_endpoints h ms = Inr (map (map_option (fill_endpoint h)) ms)"
  by (induction h ms rule: fill_endpoints.induct) auto

lemma fill_endpoints_nil_element:
  "None \<in> set ms \<Longrightarrow> fill_endpoints h ms = Inl NilPointerDereference"
  by (induction h ms rule: fill_endpoints.induct) (auto split: sum.splits)

lemma fill_endpoint_idem: "fill_endpoint h (fill_endpoint h v) = fill_endpoint h v"
  by (simp add: fill_endpoint_def)

lemma wf_nonempty_body: "wf_request req \<Longrightarrow> Body req \<noteq> [] \<Longrightarrow> ContentLength req \<noteq> 0"
  by (auto simp: wf_request_def)

lemma http_Error_new:
  "http_Error new_ResponseWriter msg code =
     \<lparr>wroteHeader = True, Status = code, RespBody = msg @ [CHR 0x0A]\<rparr>"
  by (simp add: http_Error_def Write_def WriteHeader_def new_ResponseWriter_def)

lemma Write_new:
  "Write bs new_ResponseWriter = \<lparr>wroteHeader = True, Status = 200, RespBody = bs\<rparr>"
  by (simp add: Write_def WriteHeader_def new_ResponseWriter_def)

text \<open>
  C1. A request with a body that decodes to a batch of points (no element is nil) is
  answered with status 200 and the body \<^verbatim>\<open>success\<close>, and one batch is handed to the sink.
  That batch has the length of the decoded one; position by position, a point that
  arrived with an empty \<^verbatim>\<open>Endpoint\<close> carries the configured \<^verbatim>\<open>Hostname\<close>, a point that
  arrived with a non-empty \<^verbatim>\<open>Endpoint\<close> is the point that arrived, and in both cases
  putting the old \<^verbatim>\<open>Endpoint\<close> back gives the point that arrived, so no other field
  changed. Filling the forwarded batch once more returns it as it is.
\<close>

theorem push_fills_missing_endpoint:
  assumes "wf_request req" and "Body req \<noteq> []"
    and "Decode (Body req) = Inr metrics" and "None \<notin> set metrics"
  shows "\<exists>forwarded.
     push_handler Decode SendToTransfer cfg req (new_ResponseWriter, s) =
       Inr (\<lparr>wroteHeader = True, Status = 200, RespBody = ''success''\<rparr>, SendToTransfer forwarded s) \<and>
     length forwarded = length metrics \<and>
     (\<forall>i<length metrics. \<exists>v v'. metrics ! i = Some v \<and> forwarded ! i = Some v' \<and>
        (Endpoint v = [] \<longrightarrow> Endpoint v' = Hostname cfg) \<and>
        (Endpoint v \<noteq> [] \<longrightarrow> v' = v) \<and>
        v'\<lparr>Endpoint := Endpoint v\<rparr> = v) \<and>
     fill_endpoints (Hostname cfg) forwarded = Inr forwarded"
proof -
  let ?h = "Hostname cfg"
  let ?fwd = "map (map_option (fill_endpoint ?h)) metrics"
  have cl: "ContentLength req \<noteq> 0"
    using assms(1,2) by (rule wf_nonempty_body)
  have fill: "fill_endpoints ?h metrics = Inr ?fwd"
    using assms(4) by (rule fill_endpoints_points)
  have run: "push_handler Decode SendToTransfer cfg req (new_ResponseWriter, s) =
       Inr (\<lparr>wroteHeader = True, Status = 200, RespBody = ''success''\<rparr>, SendToTransfer ?fwd s)"
    using cl assms(3) fill by (simp add: push_handler_def Write_new)
  have pointwise: "\<forall>i<length metrics. \<exists>v v'. metrics ! i = Some v \<and> ?fwd ! i = Some v' \<and>
        (Endpoint v = [] \<longrightarrow> Endpoint v' = ?h) \<and>
        (Endpoint v \<noteq> [] \<longrightarrow> v' = v) \<and>
        v'\<lparr>Endpoint := Endpoint v\<rparr> = v"
  proof (intro allI impI)
    fix i assume i: "i < length metrics"
    then have "metrics ! i \<in> set metrics" by simp
    with assms(4) obtain v where v: "metrics ! i = Some v"
      by (cases "metrics ! i") auto
    have "?fwd ! i = Some (fill_endpoint ?h v)"
      using i v by simp
    then show "\<exists>v v'. metrics ! i = Some v \<and> ?fwd ! i = Some v' \<and>
        (Endpoint v = [] \<longrightarrow> Endpoint v' = ?h) \<and>
        (Endpoint v \<noteq> [] \<longrightarrow> v' = v) \<and>
        v'\<lparr>Endpoint := Endpoint v\<rparr> = v"
      using v by (simp add: fill_endpoint_def)
  qed
  have "None \<notin> set ?fwd"
    using assms(4) by auto
  then have "fill_endpoints ?h ?fwd = Inr (map (map_option (fill_endpoint ?h)) ?fwd)"
    by (rule fill_endpoints_points)
  also have "map (map_option (fill_endpoint ?h)) ?fwd = ?fwd"
    by (simp add: option.map_comp comp_def fill_endpoint_idem)
  finally have idem: "fill_endpoints ?h ?fwd = Inr ?fwd" .
  from run pointwise idem show ?thesis
    by (intro exI [of _ ?fwd]) simp
qed

theorem push_fills_missing_endpoint_witness:
  "wf_request (post_push 88 two_points_body) \<and> Body (post_push 88 two_points_body) \<noteq> [] \<and>
   json_fixture (Body (post_push 88 two_points_body)) =
     Inr [Some \<lparr>Endpoint = [], Metric = ''cpu.load'', Value = ''1.2'', Timestamp = 0, Tags = []\<rparr>,
          Some \<lparr>Endpoint = ''web01'', Metric = ''mem.free'', Value = ''512'', Timestamp = 0, Tags = []\<rparr>] \<and>
   push_handler json_fixture (#) \<lparr>Hostname = ''agent-01''\<rparr> (post_push 88 two_points_body)
       (new_ResponseWriter, []) =
     Inr (\<lparr>wroteHeader = True, Status = 200, RespBody = ''success''\<rparr>,
       [[Some \<lparr>Endpoint = ''agent-01'', Metric = ''cpu.load'', Value = ''1.2'', Timestamp = 0, Tags = []\<rparr>,
         Some \<lparr>Endpoint = ''web01'', Metric = ''mem.free'', Value = ''512'', Timestamp = 0, Tags = []\<rparr>]])"
proof -
  let ?req = "post_push 88 two_points_body"
  let ?ms = "[Some \<lparr>Endpoint = [], Metric = ''cpu.load'', Value = ''1.2'', Timestamp = 0, Tags = []\<rparr>,
          Some \<lparr>Endpoint = ''web01'', Metric = ''mem.free'', Value = ''512'', Timestamp = 0, Tags = []\<rparr>]"
  have wf: "wf_request ?req"
    by (simp add: wf_request_def post_push_def two_points_body_def)
  have body: "Body ?req \<noteq> []"
    by (simp add: post_push_def two_points_body_def)
  have dec: "json_fixture (Body ?req) = Inr ?ms"
    by (simp add: json_fixture_def json_table_def post_push_def two_points_body_def cpu_load_body_def)
  have points: "None \<notin> set ?ms"
    by simp
  from push_fills_missing_endpoint [where req = ?req and Decode = json_fixture and metrics = ?ms
      and SendToTransfer = "(#)" and cfg = "\<lparr>Hostname = ''agent-01''\<rparr>" and s = "[]", OF wf body dec points]
  obtain forwarded where
    run: "push_handler json_fixture (#) \<lparr>Hostname = ''agent-01''\<rparr> ?req (new_ResponseWriter, []) =
       Inr (\<lparr>wroteHeader = True, Status = 200, RespBody = ''success''\<rparr>, [forwarded])"
    by blast
  show ?thesis
    using wf body dec run
    by (simp add: push_handler_def fill_endpoint_def post_push_def)
qed

text \<open>
  C2, as stated, fails. Two requests with an empty body, both well formed, differing in
  the announced length only: under length \<open>0\<close> the answer is 400 with the text
  \<^verbatim>\<open>body is blank\<close>, under the unknown length \<open>-1\<close> (a chunked request without content) the
  handler goes on to the decoder, which fails on the empty input, and the answer is 400
  with the text \<^verbatim>\<open>connot decode body\<close>. The error text of an empty body is not one fixed
  text independent of the headers.
\<close>

theorem push_blank_body_counterexample:
  "wf_request (post_push 0 []) \<and> Body (post_push 0 []) = [] \<and>
   wf_request (post_push (- 1) []) \<and> Body (post_push (- 1) []) = [] \<and>
   push_handler json_fixture (#) \<lparr>Hostname = ''agent-01''\<rparr> (post_push 0 []) (new_ResponseWriter, []) =
     Inr (\<lparr>wroteHeader = True, Status = 400, RespBody = ''body is blank'' @ [CHR 0x0A]\<rparr>, []) \<and>
   push_handler json_fixture (#) \<lparr>Hostname = ''agent-01''\<rparr> (post_push (- 1) []) (new_ResponseWriter, []) =
     Inr (\<lparr>wroteHeader = True, Status = 400, RespBody = ''connot decode body'' @ [CHR 0x0A]\<rparr>, []) \<and>
   ''body is blank'' @ [CHR 0x0A] \<noteq> ''connot decode body'' @ [CHR 0x0A]"
  by (simp add: wf_request_def post_push_def push_handler_def json_fixture_def json_table_def http_Error_new
      StatusBadRequest_def)

text \<open>
  C2, amended. A request that announces the length \<open>0\<close> is answered with status 400 and
  the text \<^verbatim>\<open>body is blank\<close> (and a newline), whatever its method, headers, body,
  the decoder, the configuration and the sink are, and the sink is left as it was. A
  well-formed request with an empty body and another announced length is answered with
  status 400 and the text \<^verbatim>\<open>connot decode body\<close>, the sink left as it was, when the
  decoder fails on the empty input.
\<close>

theorem push_blank_body:
  "(ContentLength req = 0 \<longrightarrow>
      push_handler Decode SendToTransfer cfg req (new_ResponseWriter, s) =
        Inr (\<lparr>wroteHeader = True, Status = 400, RespBody = ''body is blank'' @ [CHR 0x0A]\<rparr>, s)) \<and>
   (wf_request req \<and> Body req = [] \<and> ContentLength req \<noteq> 0 \<and> Decode [] = Inl err \<longrightarrow>
      push_handler Decode SendToTransfer cfg req (new_ResponseWriter, s) =
        Inr (\<lparr>wroteHeader = True, Status = 400, RespBody = ''connot decode body'' @ [CHR 0x0A]\<rparr>, s))"
  by (simp add: push_handler_def http_Error_new StatusBadRequest_def)

theorem push_blank_body_witness:
  "ContentLength (post_push 0 []) = 0 \<and>
   push_handler json_fixture (#) \<lparr>Hostname = ''agent-01''\<rparr>
       (post_push 0 []\<lparr>Header := [(''Content-Type'', ''text/plain'')]\<rparr>) (new_ResponseWriter, []) =
     Inr (\<lparr>wroteHeader = True, Status = 400, RespBody = ''body is blank'' @ [CHR 0x0A]\<rparr>, []) \<and>
   wf_request (post_push (- 1) []) \<and> Body (post_push (- 1) []) = [] \<and>
   ContentLength (post_push (- 1) []) \<noteq> 0 \<and> json_fixture [] = Inl ''EOF'' \<and>
   push_handler json_fixture (#) \<lparr>Hostname = ''agent-01''\<rparr> (post_push (- 1) []) (new_ResponseWriter, []) =
     Inr (\<lparr>wroteHeader = True, Status = 400, RespBody = ''connot decode body'' @ [CHR 0x0A]\<rparr>, [])"
  using push_blank_body [where req = "post_push 0 []\<lparr>Header := [(''Content-Type'', ''text/plain'')]\<rparr>"
      and Decode = json_fixture and SendToTransfer = "(#)" and cfg = "\<lparr>Hostname = ''agent-01''\<rparr>"
      and s = "[]"]
    push_blank_body [where req = "post_push (- 1) []"
      and Decode = json_fixture and SendToTransfer = "(#)" and cfg = "\<lparr>Hostname = ''agent-01''\<rparr>"
      and s = "[]" and err = "''EOF''"]
  by (simp add: wf_request_def post_push_def json_fixture_def json_table_def)

text \<open>
  C3. A well-formed request with a non-empty body that the decoder rejects is answered
  with status 400 and the text \<^verbatim>\<open>connot decode body\<close> (and a newline). The sink is left
  as it was, for every sink, so nothing is forwarded; the result does not mention the
  configuration, so no endpoint is filled in.
\<close>

theorem push_decode_error:
  assumes "wf_request req" and "Body req \<noteq> []" and "Decode (Body req) = Inl err"
  shows "push_handler Decode SendToTransfer cfg req (new_ResponseWriter, s) =
       Inr (\<lparr>wroteHeader = True, Status = 400, RespBody = ''connot decode body'' @ [CHR 0x0A]\<rparr>, s)"
proof -
  have "ContentLength req \<noteq> 0"
    using assms(1,2) by (rule wf_nonempty_body)
  then show ?thesis
    using assms(3) by (simp add: push_handler_def http_Error_new StatusBadRequest_def)
qed

theorem push_decode_error_witness:
  "wf_request (post_push 2 ''[{'') \<and> Body (post_push 2 ''[{'') \<noteq> [] \<and>
   json_fixture (Body (post_push 2 ''[{'')) = Inl ''unexpected EOF'' \<and>
   push_handler json_fixture (#) \<lparr>Hostname = ''agent-01''\<rparr> (post_push 2 ''[{'') (new_ResponseWriter, []) =
     Inr (\<lparr>wroteHeader = True, Status = 400, RespBody = ''connot decode body'' @ [CHR 0x0A]\<rparr>, [])"
proof -
  have wf: "wf_request (post_push 2 ''[{'')"
    by (simp add: wf_request_def post_push_def)
  have body: "Body (post_push 2 ''[{'') \<noteq> []"
    by (simp add: post_push_def)
  have dec: "json_fixture (Body (post_push 2 ''[{'')) = Inl ''unexpected EOF''"
    by (simp add: json_fixture_def json_table_def post_push_def cpu_load_body_def two_points_body_def)
  show ?thesis
    using wf body dec
      push_decode_error [where Decode = json_fixture and SendToTransfer = "(#)"
        and cfg = "\<lparr>Hostname = ''agent-01''\<rparr>" and s = "[]", OF wf body dec]
    by simp
qed

lemma null_element_request_wf: "wf_request (post_push 6 ''[null]'')"
  by (simp add: wf_request_def post_push_def)

text \<open>
  C4. The claim holds for a decoded batch of points (see C1: status 200, \<^verbatim>\<open>success\<close>, the
  batch handed to the sink whatever the sink does with it). It fails for a body that
  decodes without error to a batch with a nil element: the body \<^verbatim>\<open>[null]\<close> decodes to one
  nil pointer, the loop reads \<^verbatim>\<open>v.Endpoint\<close> through it, and the handler panics before it
  calls the sink or writes a response.
\<close>

theorem push_null_element_panics:
  "json_fixture (Body (post_push 6 ''[null]'')) = Inr [None] \<and>
   push_handler json_fixture (#) \<lparr>Hostname = ''agent-01''\<rparr> (post_push 6 ''[null]'') (new_ResponseWriter, []) =
     Inl NilPointerDereference"
  by (simp add: post_push_def push_handler_def json_fixture_def json_table_def)

text \<open>
  C10. A well-formed request with a non-empty body that decodes to the empty batch (as
  \<^verbatim>\<open>[]\<close> and \<^verbatim>\<open>null\<close> do) is answered with status 200 and the body \<^verbatim>\<open>success\<close>, and the
  empty batch is handed to the sink.
\<close>

theorem push_empty_batch:
  assumes "wf_request req" and "Body req \<noteq> []" and "Decode (Body req) = Inr []"
  shows "push_handler Decode SendToTransfer cfg req (new_ResponseWriter, s) =
       Inr (\<lparr>wroteHeader = True, Status = 200, RespBody = ''success''\<rparr>, SendToTransfer [] s)"
proof -
  have "ContentLength req \<noteq> 0"
    using assms(1,2) by (rule wf_nonempty_body)
  then show ?thesis
    using assms(3) by (simp add: push_handler_def Write_new)
qed

theorem push_empty_batch_witness:
  "wf_request (post_push 2 ''[]'') \<and> Body (post_push 2 ''[]'') \<noteq> [] \<and>
   json_fixture (Body (post_push 2 ''[]'')) = Inr [] \<and>
   push_handler json_fixture (#) \<lparr>Hostname = ''agent-01''\<rparr> (post_push 2 ''[]'') (new_ResponseWriter, []) =
     Inr (\<lparr>wroteHeader = True, Status = 200, RespBody = ''success''\<rparr>, [[]]) \<and>
   wf_request (post_push (- 1) ''null'') \<and> Body (post_push (- 1) ''null'') \<noteq> [] \<and>
   json_fixture (Body (post_push (- 1) ''null'')) = Inr [] \<and>
   push_handler json_fixture (#) \<lparr>Hostname = ''agent-01''\<rparr> (post_push (- 1) ''null'') (new_ResponseWriter, []) =
     Inr (\<lparr>wroteHeader = True, Status = 200, RespBody = ''success''\<rparr>, [[]])"
proof -
  have wf: "wf_request (post_push 2 ''[]'')" "wf_request (post_push (- 1) ''null'')"
    by (simp_all add: wf_request_def post_push_def)
  have body: "Body (post_push 2 ''[]'') \<noteq> []" "Body (post_push (- 1) ''null'') \<noteq> []"
    by (simp_all add: post_push_def)
  have dec: "json_fixture (Body (post_push 2 ''[]'')) = Inr []"
    "json_fixture (Body (post_push (- 1) ''null'')) = Inr []"
    by (simp_all add: json_fixture_def json_table_def post_push_def)
  show ?thesis
    using wf body dec
      push_empty_batch [where Decode = json_fixture and SendToTransfer = "(#)"
        and cfg = "\<lparr>Hostname = ''agent-01''\<rparr>" and s = "[]", OF wf(1) body(1) dec(1)]
      push_empty_batch [where Decode = json_fixture and SendToTransfer = "(#)"
        and cfg = "\<lparr>Hostname = ''agent-01''\<rparr>" and s = "[]", OF wf(2) body(2) dec(2)]
    by simp
qed

section \<open>Properties of the metrics server\<close>

lemma canonical_healthzPath: "canonical ''/healthz''"
  by (simp add: canonical_def)

text \<open>
  C7. A request to the health path is answered with status 200 and the body \<^verbatim>\<open>ok\<close>,
  whatever its method, headers and body are and whatever the handler of the metrics
  path, the only reader of the caches, and the redirect of the mux would answer.
\<close>

theorem healthz_ok:
  "Path r = healthzPath \<Longrightarrow>
   metricsServer UninstrumentedHandler RedirectHandler new_ResponseWriter r =
     \<lparr>wroteHeader = True, Status = 200, RespBody = ''ok''\<rparr>"
  by (simp add: metricsServer_def healthz_handler_def metricsPath_def healthzPath_def
      canonical_healthzPath Write_def WriteHeader_def new_ResponseWriter_def)

theorem healthz_ok_witness:
  "Path \<lparr>Method = ''GET'', Path = ''/healthz'', Header = [], ContentLength = 0, Body = []\<rparr> = healthzPath \<and>
   metricsServer (\<lambda>w r. WriteHeader 500 w) (\<lambda>w r. WriteHeader 301 w) new_ResponseWriter
     \<lparr>Method = ''GET'', Path = ''/healthz'', Header = [], ContentLength = 0, Body = []\<rparr> =
     \<lparr>wroteHeader = True, Status = 200, RespBody = ''ok''\<rparr>"
  using healthz_ok [of "\<lparr>Method = ''GET'', Path = ''/healthz'', Header = [], ContentLength = 0, Body = []\<rparr>"
      "\<lambda>w r. WriteHeader 500 w" "\<lambda>w r. WriteHeader 301 w"]
  by (simp add: healthzPath_def)

section \<open>Properties of the watch cache\<close>

lemma store_inv_empty: "store_inv keyf []"
  by (simp add: store_inv_def)

lemma update_entries: "set (AList.update k v st) \<subseteq> insert (k, v) (set st)"
  by (induction st) auto

lemma store_inv_update: "store_inv keyf st \<Longrightarrow> store_inv keyf (AList.update (keyf x) x st)"
proof -
  assume inv: "store_inv keyf st"
  have "distinct (map fst (AList.update (keyf x) x st))"
    using inv by (simp add: store_inv_def distinct_update)
  moreover have "\<forall>e\<in>set (AList.update (keyf x) x st). fst e = keyf (snd e)"
    using inv update_entries [of "keyf x" x st] by (auto simp: store_inv_def)
  ultimately show ?thesis
    by (simp add: store_inv_def)
qed

lemma store_inv_delete: "store_inv keyf st \<Longrightarrow> store_inv keyf (AList.delete k st)"
proof -
  assume inv: "store_inv keyf st"
  have "distinct (map fst (AList.delete k st))"
    using inv by (simp add: store_inv_def distinct_delete)
  moreover have "set (AList.delete k st) \<subseteq> set st"
    by (auto simp: AList.delete_eq)
  ultimately show ?thesis
    using inv by (auto simp: store_inv_def)
qed

lemma store_inv_fold_update:
  "store_inv keyf st \<Longrightarrow> store_inv keyf (fold (\<lambda>x st. AList.update (keyf x) x st) xs st)"
  by (induction xs arbitrary: st) (simp_all add: store_inv_update)

lemma store_inv_Replace: "store_inv keyf (Replace keyf xs)"
  by (simp add: Replace_def store_inv_fold_update store_inv_empty)

lemma store_inv_apply_event: "store_inv keyf st \<Longrightarrow> store_inv keyf (apply_event keyf ev st)"
  by (cases ev) (simp_all add: store_inv_update store_inv_delete store_inv_Replace)

lemma store_inv_fold_events:
  "store_inv keyf st \<Longrightarrow> store_inv keyf (fold (apply_event keyf) evs st)"
  by (induction evs arbitrary: st) (simp_all add: store_inv_apply_event)

lemma store_inv_apply_events: "store_inv keyf (apply_events keyf evs)"
  by (simp add: apply_events_def store_inv_fold_events store_inv_empty)

lemma apply_events_snoc:
  "apply_events keyf (evs @ [ev]) = apply_event keyf ev (apply_events keyf evs)"
  by (simp add: apply_events_def)

lemma store_inv_keys: "store_inv keyf st \<Longrightarrow> map keyf (Store_List st) = map fst st"
  by (induction st) (auto simp: store_inv_def Store_List_def)

lemma store_inv_distinct: "store_inv keyf st \<Longrightarrow> distinct (map keyf (Store_List st))"
  by (simp add: store_inv_keys) (simp add: store_inv_def)

lemma update_present_same:
  "store_inv keyf st \<Longrightarrow> keyf x \<in> fst ` set st \<Longrightarrow>
   filter (\<lambda>y. keyf y = keyf x) (Store_List (AList.update (keyf x) x st)) = [x]"
proof (induction st)
  case Nil
  then show ?case by simp
next
  case (Cons e st)
  obtain k v where e: "e = (k, v)" by (cases e)
  from Cons.prems(1) have both: "distinct (map fst ((k, v) # st)) \<and>
      (\<forall>e\<in>set ((k, v) # st). fst e = keyf (snd e))"
    unfolding store_inv_def e .
  from both have dist: "distinct (map fst ((k, v) # st))"
    by (rule conjunct1)
  from both have cons': "\<forall>e\<in>set ((k, v) # st). fst e = keyf (snd e)"
    by (rule conjunct2)
  from dist have fresh: "k \<notin> fst ` set st" and dist': "distinct (map fst st)"
    by simp_all
  from cons' have kv: "k = keyf v" and cons: "\<forall>e\<in>set st. fst e = keyf (snd e)"
    by simp_all
  from dist' cons have inv: "store_inv keyf st"
    by (simp add: store_inv_def)
  show ?case
  proof (cases "k = keyf x")
    case True
    have "\<forall>y\<in>set (map snd st). keyf y \<noteq> keyf x"
    proof
      fix y assume "y \<in> set (map snd st)"
      then obtain e' where e': "e' \<in> set st" and y: "y = snd e'" by auto
      from e' cons have "fst e' = keyf y" by (simp add: y)
      moreover from e' fresh have "fst e' \<noteq> k" by force
      ultimately show "keyf y \<noteq> keyf x" using True by simp
    qed
    then have "filter (\<lambda>y. keyf y = keyf x) (map snd st) = []"
      by (simp add: filter_empty_conv)
    then show ?thesis
      using True by (simp add: e Store_List_def)
  next
    case False
    then have "keyf x \<in> fst ` set st"
      using Cons.prems(2) by (auto simp: e)
    then show ?thesis
      using Cons.IH [OF inv] False kv by (simp add: e Store_List_def)
  qed
qed

lemma update_others:
  "store_inv keyf st \<Longrightarrow>
   filter (\<lambda>y. keyf y \<noteq> keyf x) (Store_List (AList.update (keyf x) x st)) =
   filter (\<lambda>y. keyf y \<noteq> keyf x) (Store_List st)"
proof (induction st)
  case Nil
  then show ?case by (simp add: Store_List_def)
next
  case (Cons e st)
  obtain k v where e: "e = (k, v)" by (cases e)
  from Cons.prems have inv: "store_inv keyf st" and kv: "k = keyf v"
    by (auto simp: store_inv_def e)
  show ?case
    using Cons.IH [OF inv] kv by (simp add: e Store_List_def)
qed

lemma delete_absent:
  "store_inv keyf st \<Longrightarrow> \<forall>y\<in>set (Store_List (AList.delete (keyf x) st)). keyf y \<noteq> keyf x"
  by (auto simp: store_inv_def Store_List_def AList.delete_eq)

lemma delete_others:
  "store_inv keyf st \<Longrightarrow>
   filter (\<lambda>y. keyf y \<noteq> keyf x) (Store_List (AList.delete (keyf x) st)) =
   filter (\<lambda>y. keyf y \<noteq> keyf x) (Store_List st)"
proof (induction st)
  case Nil
  then show ?case by (simp add: Store_List_def)
next
  case (Cons e st)
  obtain k v where e: "e = (k, v)" by (cases e)
  from Cons.prems have inv: "store_inv keyf st" and kv: "k = keyf v"
    by (auto simp: store_inv_def e)
  show ?case
    using Cons.IH [OF inv] kv by (simp add: e Store_List_def)
qed

lemma sample_stores:
  "Store_List (GetStore deployment_informer) = [DeploymentPtr (Some (named ''api'')), DeploymentPtr (Some (named ''worker''))]"
  "Store_List (GetStore pod_informer) = [PodPtr (Some web_pod), PodPtr (Some db_pod)]"
  "Store_List (GetStore node_informer) = [NodePtr (Some (named ''node-1''))]"
  "Store_List (GetStore rc_informer) = [ReplicationControllerPtr (Some (named ''queue''))]"
  by (simp_all add: deployment_informer_def pod_informer_def node_informer_def rc_informer_def
      pod_events_def GetStore_def Store_List_def apply_events_def Replace_def object_key_def
      pod_key_def web_pod_def db_pod_def web_pod_succeeded_def named_def)

text \<open>
  C8. In the store left by any stream of events no two listed objects have the same key.
  After an update event for a key that is present, the list holds exactly one object
  with that key, the updated one, and the objects of the other keys are as before.
  After a delete event the list holds no object with that key, and the objects of the
  other keys are as before.
\<close>

theorem store_one_entry_per_key:
  "distinct (map keyf (Store_List (apply_events keyf evs))) \<and>
   (keyf x \<in> keyf ` set (Store_List (apply_events keyf evs)) \<longrightarrow>
      filter (\<lambda>y. keyf y = keyf x) (Store_List (apply_events keyf (evs @ [Update x]))) = [x] \<and>
      filter (\<lambda>y. keyf y \<noteq> keyf x) (Store_List (apply_events keyf (evs @ [Update x]))) =
        filter (\<lambda>y. keyf y \<noteq> keyf x) (Store_List (apply_events keyf evs))) \<and>
   (\<forall>y\<in>set (Store_List (apply_events keyf (evs @ [Delete x]))). keyf y \<noteq> keyf x) \<and>
   filter (\<lambda>y. keyf y \<noteq> keyf x) (Store_List (apply_events keyf (evs @ [Delete x]))) =
     filter (\<lambda>y. keyf y \<noteq> keyf x) (Store_List (apply_events keyf evs))"
proof -
  let ?st = "apply_events keyf evs"
  have inv: "store_inv keyf ?st"
    by (rule store_inv_apply_events)
  have one: "distinct (map keyf (Store_List ?st))"
    using inv by (rule store_inv_distinct)
  have keys: "keyf ` set (Store_List ?st) = fst ` set ?st"
    using store_inv_keys [OF inv] by (metis set_map)
  have upd: "keyf x \<in> keyf ` set (Store_List ?st) \<longrightarrow>
      filter (\<lambda>y. keyf y = keyf x) (Store_List (apply_events keyf (evs @ [Update x]))) = [x]"
    using update_present_same [OF inv] keys by (simp add: apply_events_snoc)
  have upd_others: "filter (\<lambda>y. keyf y \<noteq> keyf x) (Store_List (apply_events keyf (evs @ [Update x]))) =
        filter (\<lambda>y. keyf y \<noteq> keyf x) (Store_List ?st)"
    using update_others [OF inv] by (simp add: apply_events_snoc)
  have del: "\<forall>y\<in>set (Store_List (apply_events keyf (evs @ [Delete x]))). keyf y \<noteq> keyf x"
    using delete_absent [OF inv] by (simp add: apply_events_snoc)
  have del_others: "filter (\<lambda>y. keyf y \<noteq> keyf x) (Store_List (apply_events keyf (evs @ [Delete x]))) =
     filter (\<lambda>y. keyf y \<noteq> keyf x) (Store_List ?st)"
    using delete_others [OF inv] by (simp add: apply_events_snoc)
  from one upd upd_others del del_others show ?thesis
    by blast
qed

theorem store_one_entry_per_key_witness:
  "object_key (PodPtr (Some web_pod_succeeded)) \<in>
     object_key ` set (Store_List (apply_events object_key pod_events)) \<and>
   Store_List (apply_events object_key pod_events) = [PodPtr (Some web_pod), PodPtr (Some db_pod)] \<and>
   Store_List (apply_events object_key (pod_events @ [Update (PodPtr (Some web_pod_succeeded))])) =
     [PodPtr (Some web_pod_succeeded), PodPtr (Some db_pod)] \<and>
   Store_List (apply_events object_key (pod_events @ [Delete (PodPtr (Some web_pod_succeeded))])) =
     [PodPtr (Some db_pod)]"
  using store_one_entry_per_key [of object_key pod_events "PodPtr (Some web_pod_succeeded)"]
  by (simp add: pod_events_def Store_List_def apply_events_def Replace_def object_key_def
      pod_key_def web_pod_def db_pod_def web_pod_succeeded_def named_def)

section \<open>Properties of the typed listers\<close>

lemma deployments_loop_all:
  "deployments_loop (map (\<lambda>d. DeploymentPtr (Some d)) ds) acc = Inr (acc @ ds)"
  by (induction ds arbitrary: acc) auto

lemma pods_loop_all:
  "pods_loop (map (\<lambda>m. PodPtr (Some m)) ds) acc = Inr (acc @ ds)"
  by (induction ds arbitrary: acc) auto

lemma machines_loop_all:
  "machines_loop (map (\<lambda>m. NodePtr (Some m)) ds) acc = Inr (acc\<lparr>Items := Items acc @ ds\<rparr>)"
  by (induction ds arbitrary: acc) auto

lemma rcs_loop_all:
  "rcs_loop (map (\<lambda>m. ReplicationControllerPtr (Some m)) ds) acc = Inr (acc @ ds)"
  by (induction ds arbitrary: acc) auto

lemma all_deployments: "list_all is_deployment cs \<Longrightarrow> \<exists>ds. cs = map (\<lambda>d. DeploymentPtr (Some d)) ds"
proof (induction cs)
  case Nil
  then show ?case by simp
next
  case (Cons c cs)
  then obtain ds where "cs = map (\<lambda>d. DeploymentPtr (Some d)) ds" by auto
  moreover from Cons.prems obtain d where "c = DeploymentPtr (Some d)"
    by (cases c rule: is_deployment.cases) auto
  ultimately have "c # cs = map (\<lambda>d. DeploymentPtr (Some d)) (d # ds)" by simp
  then show ?case by (rule exI)
qed

lemma all_pods: "list_all is_pod cs \<Longrightarrow> \<exists>ds. cs = map (\<lambda>m. PodPtr (Some m)) ds"
proof (induction cs)
  case Nil
  then show ?case by simp
next
  case (Cons c cs)
  then obtain ds where "cs = map (\<lambda>m. PodPtr (Some m)) ds" by auto
  moreover from Cons.prems obtain d where "c = PodPtr (Some d)"
    by (cases c rule: is_pod.cases) auto
  ultimately have "c # cs = map (\<lambda>m. PodPtr (Some m)) (d # ds)" by simp
  then show ?case by (rule exI)
qed

lemma all_nodes: "list_all is_node cs \<Longrightarrow> \<exists>ds. cs = map (\<lambda>m. NodePtr (Some m)) ds"
proof (induction cs)
  case Nil
  then show ?case by simp
next
  case (Cons c cs)
  then obtain ds where "cs = map (\<lambda>m. NodePtr (Some m)) ds" by auto
  moreover from Cons.prems obtain d where "c = NodePtr (Some d)"
    by (cases c rule: is_node.cases) auto
  ultimately have "c # cs = map (\<lambda>m. NodePtr (Some m)) (d # ds)" by simp
  then show ?case by (rule exI)
qed

lemma all_rcs: "list_all is_rc cs \<Longrightarrow> \<exists>ds. cs = map (\<lambda>m. ReplicationControllerPtr (Some m)) ds"
proof (induction cs)
  case Nil
  then show ?case by simp
next
  case (Cons c cs)
  then obtain ds where "cs = map (\<lambda>m. ReplicationControllerPtr (Some m)) ds" by auto
  moreover from Cons.prems obtain d where "c = ReplicationControllerPtr (Some d)"
    by (cases c rule: is_rc.cases) auto
  ultimately have "c # cs = map (\<lambda>m. ReplicationControllerPtr (Some m)) (d # ds)" by simp
  then show ?case by (rule exI)
qed

lemma shallow_copy_refl: "shallow_copy e e"
  by (simp add: shallow_copy_def)

lemma list_all2_shallow_copy_refl: "list_all2 shallow_copy es es"
  by (simp add: list_all2_same shallow_copy_refl)

lemma write_through_shared:
  "shallow_copy r e \<Longrightarrow> j < length (Refs r) \<Longrightarrow>
   snd (deep (write_through r j v h) e) ! j = Some v"
  by (simp add: shallow_copy_def write_through_def deep_def)

text \<open>
  C5, as stated, fails: the objects returned are not independent of the store entries.
  The store of the sample pod informer holds two pods. \<^verbatim>\<open>List\<close> of the pod lister returns
  their two structs. Through the entry of the first pod the labels read \<^verbatim>\<open>app=web\<close>;
  after a write through the reference of the first object returned, the labels read
  through the store entry are the ones written: the copy shares the map with the entry.
\<close>

theorem listers_copies_counterexample:
  "Store_List (GetStore pod_informer) = [PodPtr (Some web_pod), PodPtr (Some db_pod)] \<and>
   PodLister_List (podLister pod_informer) = Inr ([web_pod, db_pod], None) \<and>
   deep pod_cells web_pod =
     (\<lparr>Namespace = ''default'', Name = ''web'', Phase = ''Running''\<rparr>, [Some ''app=web'']) \<and>
   (case PodLister_List (podLister pod_informer) of
      Inr (returned # others, err) \<Rightarrow> deep (write_through returned 0 ''app=edited'' pod_cells) web_pod
    | other \<Rightarrow> deep pod_cells web_pod) =
     (\<lparr>Namespace = ''default'', Name = ''web'', Phase = ''Running''\<rparr>, [Some ''app=edited''])"
  by (simp add: sample_stores PodLister_List_def podLister_def deep_def write_through_def
      pod_cells_def web_pod_def db_pod_def)

text \<open>
  C5, amended. When the store of a kind's informer lists exactly the pointers to the
  structs \<open>ds\<close> of that kind, \<^verbatim>\<open>List\<close> of the kind's lister returns, with a nil error,
  exactly \<open>ds\<close> (for nodes as the \<^verbatim>\<open>Items\<close> of a node list): as many objects as the store
  holds, in the order the store lists them, none added, left out or repeated, each a
  shallow copy of its entry, with the entry's value-typed fields and the entry's
  references. The copies are not independent below the struct: what is written through
  a reference of a shallow copy is read through the same reference of the entry.
\<close>

theorem listers_return_store_objects:
  "(Store_List (GetStore dinf) = map (\<lambda>d. DeploymentPtr (Some d)) ds \<longrightarrow>
      (\<exists>returned. DeploymentLister_List (dplLister dinf) = Inr (returned, None) \<and>
         returned = ds \<and> list_all2 shallow_copy returned ds)) \<and>
   (Store_List (GetStore pinf) = map (\<lambda>m. PodPtr (Some m)) ps \<longrightarrow>
      (\<exists>returned. PodLister_List (podLister pinf) = Inr (returned, None) \<and>
         returned = ps \<and> list_all2 shallow_copy returned ps)) \<and>
   (Store_List (GetStore ninf) = map (\<lambda>m. NodePtr (Some m)) ns \<longrightarrow>
      (\<exists>returned. NodeLister_List (nodeLister ninf) = Inr (\<lparr>Items = returned\<rparr>, None) \<and>
         returned = ns \<and> list_all2 shallow_copy returned ns)) \<and>
   (Store_List (GetStore rinf) = map (\<lambda>m. ReplicationControllerPtr (Some m)) rs \<longrightarrow>
      (\<exists>returned. RCLister_List (rcLister rinf) = Inr (returned, None) \<and>
         returned = rs \<and> list_all2 shallow_copy returned rs)) \<and>
   (shallow_copy r e \<and> j < length (Refs r) \<longrightarrow> snd (deep (write_through r j v h) e) ! j = Some v)"
  by (simp add: DeploymentLister_List_def PodLister_List_def NodeLister_List_def RCLister_List_def
      dplLister_def podLister_def nodeLister_def rcLister_def
      deployments_loop_all pods_loop_all machines_loop_all rcs_loop_all
      list_all2_shallow_copy_refl write_through_shared)

theorem listers_return_store_objects_witness:
  "Store_List (GetStore deployment_informer) =
     map (\<lambda>d. DeploymentPtr (Some d)) [named ''api'', named ''worker''] \<and>
   DeploymentLister_List (dplLister deployment_informer) = Inr ([named ''api'', named ''worker''], None) \<and>
   Store_List (GetStore pod_informer) = map (\<lambda>m. PodPtr (Some m)) [web_pod, db_pod] \<and>
   PodLister_List (podLister pod_informer) = Inr ([web_pod, db_pod], None) \<and>
   Store_List (GetStore node_informer) = map (\<lambda>m. NodePtr (Some m)) [named ''node-1''] \<and>
   NodeLister_List (nodeLister node_informer) = Inr (\<lparr>Items = [named ''node-1'']\<rparr>, None) \<and>
   Store_List (GetStore rc_informer) = map (\<lambda>m. ReplicationControllerPtr (Some m)) [named ''queue''] \<and>
   RCLister_List (rcLister rc_informer) = Inr ([named ''queue''], None) \<and>
   shallow_copy web_pod web_pod \<and> 0 < length (Refs web_pod) \<and>
   snd (deep (write_through web_pod 0 ''app=edited'' pod_cells) web_pod) ! 0 = Some ''app=edited''"
  using listers_return_store_objects [of deployment_informer "[named ''api'', named ''worker'']"
      pod_informer "[web_pod, db_pod]" node_informer "[named ''node-1'']" rc_informer "[named ''queue'']"
      web_pod web_pod 0 "''app=edited''" pod_cells]
  by (simp add: sample_stores shallow_copy_def web_pod_def)

text \<open>
  C6. None of the four listers ever returns an error that is not nil, whatever its store
  holds; and on every store that holds objects of the lister's kind only, \<^verbatim>\<open>List\<close>
  returns, with a nil error.
\<close>

theorem listers_nil_error:
  "DeploymentLister_List (dplLister dinf) \<noteq> Inr (ds, Some err) \<and>
   PodLister_List (podLister pinf) \<noteq> Inr (ps, Some err) \<and>
   NodeLister_List (nodeLister ninf) \<noteq> Inr (ns, Some err) \<and>
   RCLister_List (rcLister rinf) \<noteq> Inr (rs, Some err) \<and>
   (list_all is_deployment (Store_List (GetStore dinf)) \<longrightarrow>
      (\<exists>ds'. DeploymentLister_List (dplLister dinf) = Inr (ds', None))) \<and>
   (list_all is_pod (Store_List (GetStore pinf)) \<longrightarrow>
      (\<exists>ps'. PodLister_List (podLister pinf) = Inr (ps', None))) \<and>
   (list_all is_node (Store_List (GetStore ninf)) \<longrightarrow>
      (\<exists>ns'. NodeLister_List (nodeLister ninf) = Inr (ns', None))) \<and>
   (list_all is_rc (Store_List (GetStore rinf)) \<longrightarrow>
      (\<exists>rs'. RCLister_List (rcLister rinf) = Inr (rs', None)))"
proof -
  have never: "DeploymentLister_List (dplLister dinf) \<noteq> Inr (ds, Some err)"
    "PodLister_List (podLister pinf) \<noteq> Inr (ps, Some err)"
    "NodeLister_List (nodeLister ninf) \<noteq> Inr (ns, Some err)"
    "RCLister_List (rcLister rinf) \<noteq> Inr (rs, Some err)"
    by (simp_all add: DeploymentLister_List_def PodLister_List_def NodeLister_List_def RCLister_List_def
        dplLister_def podLister_def nodeLister_def rcLister_def split: sum.splits)
  have d: "\<exists>ds'. DeploymentLister_List (dplLister dinf) = Inr (ds', None)"
    if "list_all is_deployment (Store_List (GetStore dinf))"
    using all_deployments [OF that]
    by (auto simp: DeploymentLister_List_def dplLister_def deployments_loop_all)
  have p: "\<exists>ps'. PodLister_List (podLister pinf) = Inr (ps', None)"
    if "list_all is_pod (Store_List (GetStore pinf))"
    using all_pods [OF that]
    by (auto simp: PodLister_List_def podLister_def pods_loop_all)
  have n: "\<exists>ns'. NodeLister_List (nodeLister ninf) = Inr (ns', None)"
    if "list_all is_node (Store_List (GetStore ninf))"
    using all_nodes [OF that]
    by (auto simp: NodeLister_List_def nodeLister_def machines_loop_all)
  have r: "\<exists>rs'. RCLister_List (rcLister rinf) = Inr (rs', None)"
    if "list_all is_rc (Store_List (GetStore rinf))"
    using all_rcs [OF that]
    by (auto simp: RCLister_List_def rcLister_def rcs_loop_all)
  from never d p n r show ?thesis
    by blast
qed

theorem listers_nil_error_witness:
  "list_all is_deployment (Store_List (GetStore deployment_informer)) \<and>
   DeploymentLister_List (dplLister deployment_informer) = Inr ([named ''api'', named ''worker''], None) \<and>
   list_all is_pod (Store_List (GetStore pod_informer)) \<and>
   PodLister_List (podLister pod_informer) = Inr ([web_pod, db_pod], None) \<and>
   list_all is_node (Store_List (GetStore node_informer)) \<and>
   NodeLister_List (nodeLister node_informer) = Inr (\<lparr>Items = [named ''node-1'']\<rparr>, None) \<and>
   list_all is_rc (Store_List (GetStore rc_informer)) \<and>
   RCLister_List (rcLister rc_informer) = Inr ([named ''queue''], None)"
  using listers_nil_error [of deployment_informer _ _ pod_informer _ node_informer _ rc_informer]
  by (simp add: sample_stores DeploymentLister_List_def PodLister_List_def NodeLister_List_def
      RCLister_List_def dplLister_def podLister_def nodeLister_def rcLister_def)

text \<open>
  C9. On an empty store, as before the first synchronisation, \<^verbatim>\<open>List\<close> of each lister
  returns the empty list (the empty node list) and a nil error, and a collector over it
  emits no sample and does not fail.
\<close>

theorem listers_empty_store:
  "DeploymentLister_List (dplLister \<lparr>indexer = []\<rparr>) = Inr ([], None) \<and>
   PodLister_List (podLister \<lparr>indexer = []\<rparr>) = Inr ([], None) \<and>
   NodeLister_List (nodeLister \<lparr>indexer = []\<rparr>) = Inr (\<lparr>Items = []\<rparr>, None) \<and>
   RCLister_List (rcLister \<lparr>indexer = []\<rparr>) = Inr ([], None) \<and>
   Collect deployment_samples (DeploymentLister_List (dplLister \<lparr>indexer = []\<rparr>)) = Inr [] \<and>
   Collect pod_samples (PodLister_List (podLister \<lparr>indexer = []\<rparr>)) = Inr [] \<and>
   Collect_nodes node_samples (NodeLister_List (nodeLister \<lparr>indexer = []\<rparr>)) = Inr [] \<and>
   Collect rc_samples (RCLister_List (rcLister \<lparr>indexer = []\<rparr>)) = Inr []"
  by (simp add: DeploymentLister_List_def PodLister_List_def NodeLister_List_def RCLister_List_def
      dplLister_def podLister_def nodeLister_def rcLister_def GetStore_def Store_List_def
      Collect_def Collect_nodes_def)

end
